theory Spec2Isabelle
  imports Complex_Main "HOL-Library.Sublist" "HOL-Library.AList"
begin

section \<open>Python strings\<close>

text \<open>
  A Python \<open>str\<close> is modelled as a \<open>string\<close>: a list of characters, each read as the
  code point of the same number, so the model covers the strings whose code points are
  below 256. The character classes below are those of \<open>str.isspace\<close> and
  \<open>str.isdigit\<close> on that range.
\<close>

definition isspace :: "char \<Rightarrow> bool" where
  "isspace c = ((of_char c :: nat) \<in> {9, 10, 11, 12, 13, 28, 29, 30, 31, 32, 133, 160})"

definition isdecimal :: "char \<Rightarrow> bool" where
  "isdecimal c = (48 \<le> (of_char c :: nat) \<and> (of_char c :: nat) \<le> 57)"

definition isdigit_char :: "char \<Rightarrow> bool" where
  "isdigit_char c = (isdecimal c \<or> (of_char c :: nat) \<in> {178, 179, 185})"

text \<open>\<open>s.isdigit()\<close>: at least one character, and every character a digit.\<close>

definition isdigit :: "string \<Rightarrow> bool" where
  "isdigit s = (s \<noteq> [] \<and> list_all isdigit_char s)"

text \<open>\<open>s.lstrip()\<close>, \<open>s.rstrip()\<close> and \<open>s.strip()\<close> without argument.\<close>

definition lstrip :: "string \<Rightarrow> string" where
  "lstrip s = dropWhile isspace s"

definition rstrip :: "string \<Rightarrow> string" where
  "rstrip s = rev (dropWhile isspace (rev s))"

definition strip :: "string \<Rightarrow> string" where
  "strip s = rstrip (lstrip s)"

text \<open>
  \<open>s.split(sep)\<close> for a non-empty separator: the occurrences of \<open>sep\<close> are found from
  the left and do not overlap; \<open>acc\<close> holds the current piece, reversed. (Python
  raises ValueError for an empty separator; the source only splits at \<open>','\<close> and
  \<open>'->'\<close>, and with an empty separator the function below never cuts.)
\<close>

fun split_aux :: "string \<Rightarrow> string \<Rightarrow> string \<Rightarrow> string list" where
  "split_aux sep acc [] = [rev acc]"
| "split_aux sep acc (c # cs) =
     (if sep \<noteq> [] \<and> prefix sep (c # cs)
      then rev acc # split_aux sep [] (drop (length sep - 1) cs)
      else split_aux sep (c # acc) cs)"

definition split :: "string \<Rightarrow> string \<Rightarrow> string list" where
  "split s sep = split_aux sep [] s"

text \<open>\<open>sep.join(parts)\<close>.\<close>

fun join :: "string \<Rightarrow> string list \<Rightarrow> string" where
  "join sep [] = []"
| "join sep [p] = p"
| "join sep (p # q # ps) = p @ sep @ join sep (q # ps)"

text \<open>\<open>str(n)\<close> for an integer: its decimal numeral.\<close>

fun str_nat :: "nat \<Rightarrow> string" where
  "str_nat n =
     (if n < 10 then [char_of (48 + n)]
      else str_nat (n div 10) @ [char_of (48 + n mod 10)])"

declare str_nat.simps [simp del]

definition str_int :: "int \<Rightarrow> string" where
  "str_int i = (if i < 0 then CHR ''-'' # str_nat (nat (- i)) else str_nat (nat i))"






section \<open>Exceptions\<close>

datatype exn =
    ConnectionError
  | HTTPError nat
  | JSONDecodeError
  | ParseError
  | AttributeError
  | TypeError

text \<open>Sequencing of statements that may raise: the first exception leaves the block.\<close>

definition bind :: "exn + 'a \<Rightarrow> ('a \<Rightarrow> exn + 'b) \<Rightarrow> exn + 'b" where
  "bind m f = (case m of Inl e \<Rightarrow> Inl e | Inr v \<Rightarrow> f v)"

section \<open>JSON values\<close>

text \<open>
  What \<open>r.json()\<close> returns. A \<open>JDict\<close> lists its items in insertion order, with
  distinct keys; a finite float is carried as the rational it denotes.
\<close>

datatype json =
    JNull
  | JBool bool
  | JInt int
  | JFloat rat
  | JStr string
  | JList "json list"
  | JDict "(string \<times> json) list"

text \<open>Truth value of a JSON value, as \<open>x or ""\<close> tests it.\<close>

fun truthy :: "json \<Rightarrow> bool" where
  "truthy JNull = False"
| "truthy (JBool b) = b"
| "truthy (JInt i) = (i \<noteq> 0)"
| "truthy (JFloat q) = (q \<noteq> 0)"
| "truthy (JStr s) = (s \<noteq> [])"
| "truthy (JList xs) = (xs \<noteq> [])"
| "truthy (JDict kvs) = (kvs \<noteq> [])"

text \<open>\<open>x.get(k, d)\<close>: only a dict has the method.\<close>

definition json_get :: "json \<Rightarrow> string \<Rightarrow> json \<Rightarrow> exn + json" where
  "json_get x k d =
     (case x of
        JDict kvs \<Rightarrow> Inr (case map_of kvs k of None \<Rightarrow> d | Some v \<Rightarrow> v)
      | _ \<Rightarrow> Inl AttributeError)"

text \<open>
  \<open>for i in x\<close>: a list gives its elements, a dict its keys, a string its characters;
  the other values are not iterable.
\<close>

definition json_iter :: "json \<Rightarrow> exn + json list" where
  "json_iter x =
     (case x of
        JList xs \<Rightarrow> Inr xs
      | JDict kvs \<Rightarrow> Inr (map (\<lambda>kv. JStr (fst kv)) kvs)
      | JStr s \<Rightarrow> Inr (map (\<lambda>c. JStr [c]) s)
      | _ \<Rightarrow> Inl TypeError)"

section \<open>XML elements\<close>

text \<open>
  An \<open>xml.etree.ElementTree.Element\<close>: tag, attributes, the text before the first
  child (\<open>None\<close> when there is none), the children, and the text after the end tag.
\<close>

datatype xml =
  Element (tag: string) (attrib: "(string \<times> string) list") (elem_text: "string option")
    (children: "xml list") (elem_tail: "string option")

text \<open>All proper descendants of an element, in document order.\<close>

fun descendants :: "xml \<Rightarrow> xml list" where
  "descendants (Element t a x cs y) = concat (map (\<lambda>c. c # descendants c) cs)"

text \<open>\<open>root.findall(".//T")\<close> and \<open>root.find(".//T")\<close>.\<close>

definition findall_desc :: "xml \<Rightarrow> string \<Rightarrow> xml list" where
  "findall_desc el t = filter (\<lambda>e. tag e = t) (descendants el)"

definition find_desc :: "xml \<Rightarrow> string \<Rightarrow> xml option" where
  "find_desc el t = List.find (\<lambda>e. tag e = t) (descendants el)"

text \<open>\<open>el.findall("T")\<close> and \<open>el.find("T")\<close>: children only.\<close>

definition findall_child :: "xml \<Rightarrow> string \<Rightarrow> xml list" where
  "findall_child el t = filter (\<lambda>e. tag e = t) (children el)"

definition find_child :: "xml \<Rightarrow> string \<Rightarrow> xml option" where
  "find_child el t = List.find (\<lambda>e. tag e = t) (children el)"

text \<open>\<open>"".join(el.itertext())\<close>: the text of the element and of everything inside it.\<close>

fun opt_text :: "string option \<Rightarrow> string" where
  "opt_text None = []"
| "opt_text (Some s) = s"

fun itertext :: "xml \<Rightarrow> string" where
  "itertext (Element t a x cs y) =
     opt_text x @ concat (map (\<lambda>c. itertext c @ opt_text (elem_tail c)) cs)"

text \<open>
  The truth value of the result of \<open>find\<close>: \<open>None\<close> is false, and an Element is
  tested through its length, so an element without children is false as well.
  \<open>a or b\<close> is \<open>a\<close> when \<open>a\<close> is true and \<open>b\<close> otherwise.
\<close>

definition elem_truthy :: "xml option \<Rightarrow> bool" where
  "elem_truthy r = (case r of None \<Rightarrow> False | Some e \<Rightarrow> children e \<noteq> [])"

definition elem_or :: "xml option \<Rightarrow> xml option \<Rightarrow> xml option" where
  "elem_or a b = (if elem_truthy a then a else b)"

section \<open>The upstream service and the adapter\<close>

text \<open>
  The process has one effect the claims speak about: its dialogue with the upstream
  service. It is recorded as a trace of events, oldest first: each request sent and each
  \<open>time.sleep\<close>. The service is a parameter: \<open>net\<close> gives the outcome of a request,
  and may depend on everything that happened before (the trace), so that a service whose
  answers change from call to call is covered. A reply carries its HTTP status and its
  text, the text being represented by what the parsers make of it: a JSON document, an
  XML document, or neither.
\<close>

datatype pval = PStr string | PInt int

type_synonym params = "(string \<times> pval) list"

datatype event = Call string params | Sleep rat

type_synonym world = "event list"

datatype body = JsonDoc json | XmlDoc xml | Malformed

datatype outcome = TransportError | Reply nat body

text \<open>
  The environment of a run: the configured API key, the upstream service, \<open>str()\<close> of
  the JSON values that are neither strings, integers, booleans nor null (Python's
  \<open>repr\<close> of floats and containers is not modelled), and the iteration order of Python
  sets. That order is implementation-defined: \<open>set_rank xs\<close> ranks the elements of the
  set whose elements were inserted in the order \<open>xs\<close>, and the set is iterated by
  increasing rank (elements of equal rank in insertion order).
\<close>

record env =
  API_KEY :: "string option"
  net :: "world \<Rightarrow> string \<Rightarrow> params \<Rightarrow> outcome"
  str_other :: "json \<Rightarrow> string"
  set_rank :: "string list \<Rightarrow> string \<Rightarrow> nat"

definition DELAY :: rat where
  "DELAY = 35 / 100"

text \<open>\<open>r.raise_for_status()\<close> raises for the statuses 400 to 599.\<close>

definition is_error_status :: "nat \<Rightarrow> bool" where
  "is_error_status st = (400 \<le> st \<and> st < 600)"

text \<open>
  \<open>_get(endpoint, params)\<close>: the request is sent; a transport error and an error status
  raise at once; otherwise the delay is slept and the reply returned.
\<close>

definition add_key :: "env \<Rightarrow> params \<Rightarrow> params" where
  "add_key E ps =
     (case API_KEY E of
        None \<Rightarrow> ps
      | Some k \<Rightarrow> if k \<noteq> [] then AList.update ''api_key'' (PStr k) ps else ps)"

definition get' :: "env \<Rightarrow> string \<Rightarrow> params \<Rightarrow> world \<Rightarrow> (exn + body) \<times> world" where
  "get' E endpoint ps w =
     (let ps' = add_key E ps;
          w1 = w @ [Call endpoint ps']
      in case net E w endpoint ps' of
           TransportError \<Rightarrow> (Inl ConnectionError, w1)
         | Reply st b \<Rightarrow>
             if is_error_status st then (Inl (HTTPError st), w1)
             else (Inr b, w1 @ [Sleep DELAY]))"

text \<open>\<open>r.json()\<close> and \<open>ET.fromstring(r.text)\<close>.\<close>

definition resp_json :: "body \<Rightarrow> exn + json" where
  "resp_json b = (case b of JsonDoc j \<Rightarrow> Inr j | _ \<Rightarrow> Inl JSONDecodeError)"

definition fromstring :: "body \<Rightarrow> exn + xml" where
  "fromstring b = (case b of XmlDoc x \<Rightarrow> Inr x | _ \<Rightarrow> Inl ParseError)"

text \<open>\<open>str(x)\<close> of a JSON value.\<close>

definition py_str :: "env \<Rightarrow> json \<Rightarrow> string" where
  "py_str E x =
     (case x of
        JStr s \<Rightarrow> s
      | JInt i \<Rightarrow> str_int i
      | JBool b \<Rightarrow> (if b then ''True'' else ''False'')
      | JNull \<Rightarrow> ''None''
      | _ \<Rightarrow> str_other E x)"

subsection \<open>search_term_to_pmids\<close>

definition search_body :: "env \<Rightarrow> body \<Rightarrow> exn + string list" where
  "search_body E b =
     bind (resp_json b) (\<lambda>j.
     bind (json_get j ''esearchresult'' (JDict [])) (\<lambda>er.
     bind (json_get er ''idlist'' (JList [])) (\<lambda>ids.
     bind (json_iter ids) (\<lambda>xs.
     Inr (map (py_str E) xs)))))"

definition search_term_to_pmids ::
  "env \<Rightarrow> string \<Rightarrow> int \<Rightarrow> world \<Rightarrow> string list \<times> world" where
  "search_term_to_pmids E term retmax w =
     (if term = [] then ([], w)
      else case get' E ''esearch''
                  [(''db'', PStr ''pubmed''), (''term'', PStr term),
                   (''retmode'', PStr ''json''), (''retmax'', PInt retmax)] w of
             (Inl e, w') \<Rightarrow> ([], w')
           | (Inr b, w') \<Rightarrow>
               (case search_body E b of Inl e \<Rightarrow> ([], w') | Inr ids \<Rightarrow> (ids, w')))"

subsection \<open>get_citations_of\<close>

text \<open>The two nested loops that flatten the link sets into \<open>out\<close>.\<close>

fun links_of_dbs :: "env \<Rightarrow> json list \<Rightarrow> exn + string list" where
  "links_of_dbs E [] = Inr []"
| "links_of_dbs E (db # dbs) =
     bind (json_get db ''links'' (JList [])) (\<lambda>l.
     bind (json_iter l) (\<lambda>is.
     bind (links_of_dbs E dbs) (\<lambda>out.
     Inr (map (py_str E) is @ out))))"

fun links_of_sets :: "env \<Rightarrow> json list \<Rightarrow> exn + string list" where
  "links_of_sets E [] = Inr []"
| "links_of_sets E (ls # lss) =
     bind (json_get ls ''linksetdb'' (JList [])) (\<lambda>d.
     bind (json_iter d) (\<lambda>dbs.
     bind (links_of_dbs E dbs) (\<lambda>out1.
     bind (links_of_sets E lss) (\<lambda>out2.
     Inr (out1 @ out2)))))"

text \<open>
  The loop "unique preserve order": \<open>i\<close> is appended when it is new, and the length is
  tested against \<open>limit\<close> after that, in every round.
\<close>

fun unique_upto :: "int \<Rightarrow> string list \<Rightarrow> string list \<Rightarrow> string list" where
  "unique_upto limit seen [] = seen"
| "unique_upto limit seen (i # out) =
     (let seen' = (if i \<in> set seen then seen else seen @ [i])
      in if int (length seen') \<ge> limit then seen' else unique_upto limit seen' out)"

definition citations_body :: "env \<Rightarrow> int \<Rightarrow> body \<Rightarrow> exn + string list" where
  "citations_body E limit b =
     bind (resp_json b) (\<lambda>j.
     bind (json_get j ''linksets'' (JList [])) (\<lambda>l.
     bind (json_iter l) (\<lambda>lss.
     bind (links_of_sets E lss) (\<lambda>out.
     Inr (unique_upto limit [] out)))))"

definition get_citations_of ::
  "env \<Rightarrow> string \<Rightarrow> string \<Rightarrow> int \<Rightarrow> world \<Rightarrow> string list \<times> world" where
  "get_citations_of E pmid direction limit w =
     (if pmid = [] then ([], w)
      else let linkname = (if direction = ''refs'' then ''pubmed_pubmed_refs''
                           else ''pubmed_pubmed_citedin'')
           in case get' E ''elink''
                     [(''dbfrom'', PStr ''pubmed''), (''db'', PStr ''pubmed''),
                      (''id'', PStr pmid), (''linkname'', PStr linkname),
                      (''retmode'', PStr ''json'')] w of
                (Inl e, w') \<Rightarrow> ([], w')
              | (Inr b, w') \<Rightarrow>
                  (case citations_body E limit b of
                     Inl e \<Rightarrow> ([], w')
                   | Inr seen \<Rightarrow> (seen, w')))"

subsection \<open>get_article_summary_by_pmid\<close>

record qualifier =
  q_name :: string
  q_id :: "string option"
  q_major :: bool

record mesh_heading =
  descriptor :: string
  descriptor_id :: "string option"
  major :: bool
  qualifiers :: "qualifier list"

text \<open>The dict the function returns, with the keys pmid, title, abstract, journal, pubdate, mesh.\<close>

record article =
  art_pmid :: string
  art_title :: string
  art_abstract :: string
  art_journal :: string
  art_pubdate :: string
  art_mesh :: "mesh_heading list"

text \<open>\<open>(res.get(k) or "").strip()\<close>: a true value that is not a string has no \<open>strip\<close>.\<close>

definition str_field :: "json \<Rightarrow> string \<Rightarrow> exn + string" where
  "str_field res k =
     bind (json_get res k JNull) (\<lambda>v.
       if truthy v
       then (case v of JStr s \<Rightarrow> Inr (strip s) | _ \<Rightarrow> Inl AttributeError)
       else Inr [])"

text \<open>
  The first \<open>try\<close> block: title, journal and pubdate start empty and are assigned one
  after the other; an exception keeps what has been assigned so far.
\<close>

definition summary_fields ::
  "env \<Rightarrow> string \<Rightarrow> world \<Rightarrow> (string \<times> string \<times> string) \<times> world" where
  "summary_fields E pmid w =
     (case get' E ''esummary''
             [(''db'', PStr ''pubmed''), (''id'', PStr pmid), (''retmode'', PStr ''json'')] w of
        (Inl e, w') \<Rightarrow> (([], [], []), w')
      | (Inr b, w') \<Rightarrow>
          (case bind (resp_json b) (\<lambda>j.
                bind (json_get j ''result'' (JDict [])) (\<lambda>r.
                json_get r pmid (JDict []))) of
             Inl e \<Rightarrow> (([], [], []), w')
           | Inr res \<Rightarrow>
               (case str_field res ''title'' of
                  Inl e \<Rightarrow> (([], [], []), w')
                | Inr t \<Rightarrow>
                    (case str_field res ''fulljournalname'' of
                       Inl e \<Rightarrow> ((t, [], []), w')
                     | Inr jn \<Rightarrow>
                         (case str_field res ''pubdate'' of
                            Inl e \<Rightarrow> ((t, jn, []), w')
                          | Inr pd \<Rightarrow> ((t, jn, pd), w'))))))"

text \<open>
  The block \<open>if not title:\<close> of the second \<open>try\<close>: the element is
  \<open>root.find(".//ArticleTitle") or root.find(".//Title")\<close>.
\<close>

definition xml_title :: "xml \<Rightarrow> string \<Rightarrow> string" where
  "xml_title doc title =
     (if title = []
      then (case elem_or (find_desc doc ''ArticleTitle'') (find_desc doc ''Title'') of
              None \<Rightarrow> title
            | Some art_title_el \<Rightarrow>
                (let t = strip (itertext art_title_el) in if t \<noteq> [] then t else title))
      else title)"

definition xml_abstract :: "xml \<Rightarrow> string" where
  "xml_abstract doc =
     (let abs_parts =
            map (\<lambda>a. strip (opt_text (elem_text a)))
              (filter (\<lambda>a. opt_text (elem_text a) \<noteq> []) (findall_desc doc ''AbstractText''))
      in if abs_parts \<noteq> [] then join [CHR 0x0A, CHR 0x0A] abs_parts
         else (case find_desc doc ''Abstract'' of
                 None \<Rightarrow> []
               | Some abs_el \<Rightarrow> strip (itertext abs_el)))"

text \<open>The qualifiers of one heading; \<open>q.text.strip()\<close> raises when there is no text.\<close>

fun qualifiers_of :: "xml list \<Rightarrow> exn + qualifier list" where
  "qualifiers_of [] = Inr []"
| "qualifiers_of (q # qs) =
     (case elem_text q of
        None \<Rightarrow> Inl AttributeError
      | Some t \<Rightarrow>
          bind (qualifiers_of qs) (\<lambda>rest.
            Inr (\<lparr>q_name = strip t, q_id = map_of (attrib q) ''UI'',
                  q_major = (map_of (attrib q) ''MajorTopicYN'' = Some ''Y'')\<rparr> # rest)))"

text \<open>
  The loop over the MeshHeading elements. It is the last statement of the \<open>try\<close>
  block and appends to \<open>mesh_data\<close> in place, so an exception leaves the headings
  appended so far.
\<close>

fun mesh_loop :: "xml list \<Rightarrow> mesh_heading list \<Rightarrow> mesh_heading list" where
  "mesh_loop [] mesh_data = mesh_data"
| "mesh_loop (mh # mhs) mesh_data =
     (case find_child mh ''DescriptorName'' of
        None \<Rightarrow> mesh_loop mhs mesh_data
      | Some d \<Rightarrow>
          (case elem_text d of
             None \<Rightarrow> mesh_data
           | Some t \<Rightarrow>
               (case qualifiers_of (findall_child mh ''QualifierName'') of
                  Inl e \<Rightarrow> mesh_data
                | Inr qs \<Rightarrow>
                    mesh_loop mhs
                      (mesh_data @
                       [\<lparr>descriptor = strip t, descriptor_id = map_of (attrib d) ''UI'',
                         major = (map_of (attrib d) ''MajorTopicYN'' = Some ''Y''),
                         qualifiers = qs\<rparr>]))))"

text \<open>The second \<open>try\<close> block: it gives the title, the abstract and the MeSH data.\<close>

definition xml_fields ::
  "env \<Rightarrow> string \<Rightarrow> string \<Rightarrow> world \<Rightarrow> (string \<times> string \<times> mesh_heading list) \<times> world" where
  "xml_fields E pmid title w =
     (case get' E ''efetch''
             [(''db'', PStr ''pubmed''), (''id'', PStr pmid), (''retmode'', PStr ''xml'')] w of
        (Inl e, w') \<Rightarrow> ((title, [], []), w')
      | (Inr b, w') \<Rightarrow>
          (case fromstring b of
             Inl e \<Rightarrow> ((title, [], []), w')
           | Inr doc \<Rightarrow>
               ((xml_title doc title, xml_abstract doc,
                 mesh_loop (findall_desc doc ''MeshHeading'') []), w')))"

text \<open>The statements after the two blocks: the sentinel title, and the truncation.\<close>

definition final_title :: "string \<Rightarrow> string \<Rightarrow> string" where
  "final_title pmid title =
     (if title = [] then ''(Untitled article, PMID '' @ pmid @ '')''
      else if length title > 800 then rstrip (take 200 title) @ ''...''
      else title)"

definition final_abstract :: "string \<Rightarrow> string" where
  "final_abstract abstract = (if abstract = [] then ''(No abstract available.)'' else abstract)"

definition get_article_summary_by_pmid :: "env \<Rightarrow> string \<Rightarrow> world \<Rightarrow> article \<times> world" where
  "get_article_summary_by_pmid E pmid w =
     (case summary_fields E pmid w of
        ((title, journal, pubdate), w1) \<Rightarrow>
          (case xml_fields E pmid title w1 of
             ((title', abstract, mesh_data), w2) \<Rightarrow>
               (\<lparr>art_pmid = pmid, art_title = final_title pmid title',
                 art_abstract = final_abstract abstract, art_journal = journal,
                 art_pubdate = pubdate, art_mesh = mesh_data\<rparr>, w2)))"

section \<open>The graph assembler\<close>

record gnode =
  node_id :: string
  node_name :: string
  title_full :: string
  node_abstract :: string
  node_journal :: string
  node_pubdate :: string
  node_mesh :: "string list"
  mesh_detail :: "mesh_heading list"
  val :: int
  color :: string
  seedGroup :: string
  seedGroups :: "string list"
  shared :: bool

record glink =
  source :: string
  target :: string
  link_color :: string
  semantic :: bool

text \<open>
  A Python set of strings is kept as the list of its elements in insertion order;
  \<open>list(s)\<close> and \<open>for x in s\<close> go through it in the order of the environment.
\<close>

definition set_add :: "string \<Rightarrow> string list \<Rightarrow> string list" where
  "set_add x s = (if x \<in> set s then s else s @ [x])"

definition py_set :: "string list \<Rightarrow> string list" where
  "py_set xs = foldl (\<lambda>s x. set_add x s) [] xs"

definition list_of_set :: "env \<Rightarrow> string list \<Rightarrow> string list" where
  "list_of_set E s = sort_key (set_rank E s) s"

definition edge_key :: "string \<Rightarrow> string \<Rightarrow> string" where
  "edge_key a b = a @ ''->'' @ b"

definition palette :: "string list" where
  "palette = [''#00bcd4'', ''#ff9800'', ''#8bc34a'', ''#e91e63'',
              ''#9c27b0'', ''#ff5722'', ''#03a9f4'', ''#cddc39'']"

definition new_node :: "nat \<Rightarrow> string \<Rightarrow> string \<Rightarrow> article \<Rightarrow> gnode" where
  "new_node s_index seed pmid meta =
     \<lparr>node_id = pmid, node_name = art_title meta, title_full = art_title meta,
      node_abstract = art_abstract meta, node_journal = art_journal meta,
      node_pubdate = art_pubdate meta, node_mesh = map descriptor (art_mesh meta),
      mesh_detail = art_mesh meta, val = 12, color = palette ! (s_index mod 8),
      seedGroup = seed, seedGroups = [seed], shared = False\<rparr>"

definition mark_shared :: "string \<Rightarrow> gnode \<Rightarrow> gnode" where
  "mark_shared seed n =
     n\<lparr>shared := True,
       seedGroups := (if seed \<in> set (seedGroups n) then seedGroups n
                      else seedGroups n @ [seed]),
       color := ''#ffffff''\<rparr>"

text \<open>Lines 165 to 168: a seed of digits is its own identifier, any other is searched.\<close>

definition resolve_seed :: "env \<Rightarrow> int \<Rightarrow> string \<Rightarrow> world \<Rightarrow> string list \<times> world" where
  "resolve_seed E limit seed w =
     (if isdigit seed then ([seed], w) else search_term_to_pmids E seed limit w)"

text \<open>Lines 174 to 177: the references of every primary identifier join the local set.\<close>

fun gather_refs ::
  "env \<Rightarrow> int \<Rightarrow> string list \<Rightarrow> string list \<Rightarrow> world \<Rightarrow> string list \<times> world" where
  "gather_refs E connector_limit [] local_pmids w = (local_pmids, w)"
| "gather_refs E connector_limit (p # ps) local_pmids w =
     (case get_citations_of E p ''refs'' connector_limit w of
        (refs, w') \<Rightarrow>
          gather_refs E connector_limit ps (foldl (\<lambda>s r. set_add r s) local_pmids refs) w')"

text \<open>
  The primary identifiers and the local working set of one seed; the set is empty when
  the seed is skipped.
\<close>

definition local_pmids_of ::
  "env \<Rightarrow> int \<Rightarrow> int \<Rightarrow> string \<Rightarrow> world \<Rightarrow> string list \<times> string list \<times> world" where
  "local_pmids_of E limit connector_limit seed w =
     (case resolve_seed E limit seed w of
        (pmids, w1) \<Rightarrow>
          if pmids = [] then ([], [], w1)
          else (case gather_refs E connector_limit pmids (py_set pmids) w1 of
                  (local_pmids, w2) \<Rightarrow> (pmids, local_pmids, w2)))"

text \<open>Lines 180 to 205: the node map is a dict, kept as an association list in insertion order.\<close>

fun hydrate ::
  "env \<Rightarrow> nat \<Rightarrow> string \<Rightarrow> string list \<Rightarrow> (string \<times> gnode) list \<Rightarrow> world
     \<Rightarrow> (string \<times> gnode) list \<times> world" where
  "hydrate E s_index seed [] nodes w = (nodes, w)"
| "hydrate E s_index seed (pmid # rest) nodes w =
     (case map_of nodes pmid of
        Some n \<Rightarrow> hydrate E s_index seed rest (AList.update pmid (mark_shared seed n) nodes) w
      | None \<Rightarrow>
          (case get_article_summary_by_pmid E pmid w of
             (meta, w') \<Rightarrow>
               hydrate E s_index seed rest
                 (AList.update pmid (new_node s_index seed pmid meta) nodes) w'))"

text \<open>Lines 208 to 211: the citation edges.\<close>

fun cite_edges ::
  "env \<Rightarrow> int \<Rightarrow> string list \<Rightarrow> string list \<Rightarrow> world \<Rightarrow> string list \<times> world" where
  "cite_edges E connector_limit [] links w = (links, w)"
| "cite_edges E connector_limit (a # as) links w =
     (case get_citations_of E a ''refs'' connector_limit w of
        (refs, w') \<Rightarrow>
          cite_edges E connector_limit as
            (foldl (\<lambda>s b. set_add (edge_key a b) s) links refs) w')"

text \<open>Lines 214 to 217: the chain through the local set, in its iteration order.\<close>

fun chain_edges :: "string list \<Rightarrow> string list \<Rightarrow> string list" where
  "chain_edges (a # b # rest) links = chain_edges (b # rest) (set_add (edge_key a b) links)"
| "chain_edges local_list links = links"

record gstate =
  all_nodes :: "(string \<times> gnode) list"
  all_links :: "string list"
  trace :: world

text \<open>One round of the loop over the seeds.\<close>

definition seed_step :: "env \<Rightarrow> int \<Rightarrow> int \<Rightarrow> gstate \<Rightarrow> nat \<times> string \<Rightarrow> gstate" where
  "seed_step E limit connector_limit st is =
     (case local_pmids_of E limit connector_limit (snd is) (trace st) of
        (pmids, local_pmids, w2) \<Rightarrow>
          if pmids = [] then st\<lparr>trace := w2\<rparr>
          else (case hydrate E (fst is) (snd is) (list_of_set E local_pmids) (all_nodes st) w2 of
                  (nodes', w3) \<Rightarrow>
                    (case cite_edges E connector_limit pmids (all_links st) w3 of
                       (links', w4) \<Rightarrow>
                         \<lparr>all_nodes = nodes',
                          all_links = chain_edges (list_of_set E local_pmids) links',
                          trace = w4\<rparr>)))"

definition run_seeds ::
  "env \<Rightarrow> int \<Rightarrow> int \<Rightarrow> (nat \<times> string) list \<Rightarrow> gstate \<Rightarrow> gstate" where
  "run_seeds E limit connector_limit iseeds st = foldl (seed_step E limit connector_limit) st iseeds"

text \<open>Lines 220 to 245: the edges whose two ends are nodes, with their colour.\<close>

definition mk_link :: "string \<Rightarrow> string \<Rightarrow> gnode \<Rightarrow> gnode \<Rightarrow> glink" where
  "mk_link a b src tgt =
     (if node_mesh src \<noteq> [] \<and> node_mesh tgt \<noteq> [] \<and> set (node_mesh src) \<inter> set (node_mesh tgt) \<noteq> {}
      then \<lparr>source = a, target = b, link_color = ''#66bb6a'', semantic = True\<rparr>
      else \<lparr>source = a, target = b, link_color = ''#cccccc'', semantic = False\<rparr>)"

fun build_links :: "(string \<times> gnode) list \<Rightarrow> string list \<Rightarrow> glink list" where
  "build_links node_map [] = []"
| "build_links node_map (edge # rest) =
     (case split edge ''->'' of
        [a, b] \<Rightarrow>
          (case (map_of node_map a, map_of node_map b) of
             (Some src, Some tgt) \<Rightarrow> mk_link a b src tgt # build_links node_map rest
           | _ \<Rightarrow> build_links node_map rest)
      | _ \<Rightarrow> build_links node_map rest)"

text \<open>
  The graph build proper (lines 157 to 245), from the seeds and the two limits to the
  nodes and links of the response.
\<close>

definition buildGraph ::
  "env \<Rightarrow> string list \<Rightarrow> int \<Rightarrow> int \<Rightarrow> world \<Rightarrow> (gnode list \<times> glink list) \<times> world" where
  "buildGraph E seeds limit connector_limit w =
     (let st = run_seeds E limit connector_limit (enumerate 0 seeds)
                 \<lparr>all_nodes = [], all_links = [], trace = w\<rparr>;
          nodes = map snd (all_nodes st);
          node_map = foldl (\<lambda>m n. AList.update (node_id n) n m) [] nodes;
          links = build_links node_map (list_of_set E (all_links st))
      in ((nodes, links), trace st))"

subsection \<open>The handler of /api/graph\<close>





section \<open>Derived notions and concrete inputs\<close>





text \<open>A service that answers every call with one link set holding the links 2 and 3.\<close>

definition links_env :: env where
  "links_env =
     \<lparr>API_KEY = None,
      net = (\<lambda>w endpoint ps.
               Reply 200 (JsonDoc (JDict [(''linksets'',
                 JList [JDict [(''linksetdb'',
                   JList [JDict [(''links'', JList [JInt 2, JInt 3])]])]])]))),
      str_other = (\<lambda>x. []),
      set_rank = (\<lambda>xs x. 0)\<rparr>"

text \<open>A service without summaries (status 404) whose full record of any article is \<open>doc\<close>.\<close>

definition xml_env :: "xml \<Rightarrow> env" where
  "xml_env doc =
     \<lparr>API_KEY = None,
      net = (\<lambda>w endpoint ps.
               if endpoint = ''efetch'' then Reply 200 (XmlDoc doc) else Reply 404 Malformed),
      str_other = (\<lambda>x. []),
      set_rank = (\<lambda>xs x. 0)\<rparr>"

text \<open>
  Two records in the shape PubMed sends: the journal with its Title element comes
  before the ArticleTitle, and the ArticleTitle holds text only.
\<close>

definition pubmed_doc :: xml where
  "pubmed_doc =
     Element ''PubmedArticle'' [] None
       [Element ''Journal'' [] None [Element ''Title'' [] (Some ''Nature'') [] None] None,
        Element ''ArticleTitle'' [] (Some ''Real title'') [] None] None"

definition bare_doc :: xml where
  "bare_doc =
     Element ''PubmedArticle'' [] None
       [Element ''ArticleTitle'' [] (Some ''Real title'') [] None] None"



text \<open>The record of an article about which nothing could be fetched.\<close>

definition default_article :: "string \<Rightarrow> article" where
  "default_article pmid =
     \<lparr>art_pmid = pmid, art_title = ''(Untitled article, PMID '' @ pmid @ '')'',
      art_abstract = ''(No abstract available.)'', art_journal = [], art_pubdate = [],
      art_mesh = []\<rparr>"


text \<open>
  Invariants of the node map: every node is stored under its own id, carries the fixed
  fields, lists its first seed first and no seed twice, and is white once it is shared.
\<close>

definition node_ok :: "string \<Rightarrow> gnode \<Rightarrow> bool" where
  "node_ok k n =
     (node_id n = k \<and> node_name n = title_full n \<and> val n = 12
      \<and> (\<exists>rest. seedGroups n = seedGroup n # rest) \<and> distinct (seedGroups n)
      \<and> (shared n \<longrightarrow> color n = ''#ffffff''))"

definition nodes_ok :: "(string \<times> gnode) list \<Rightarrow> bool" where
  "nodes_ok nodes =
     (distinct (map fst nodes) \<and> (\<forall>k n. map_of nodes k = Some n \<longrightarrow> node_ok k n))"

text \<open>A later version of a node: still shared if it was, with at least the same seeds.\<close>

definition grows :: "gnode \<Rightarrow> gnode \<Rightarrow> bool" where
  "grows n n' = ((shared n \<longrightarrow> shared n') \<and> set (seedGroups n) \<subseteq> set (seedGroups n'))"

text \<open>
  The state of the build after the loop has run through the seeds \<open>seeds\<close>, and what it
  means that the identifier \<open>x\<close> is discovered under \<open>seed\<close> when \<open>seed\<close> is
  processed next: \<open>x\<close> is in the local working set of that round.
\<close>

definition state_after :: "env \<Rightarrow> int \<Rightarrow> int \<Rightarrow> world \<Rightarrow> string list \<Rightarrow> gstate" where
  "state_after E limit connector_limit w seeds =
     run_seeds E limit connector_limit (enumerate 0 seeds)
       \<lparr>all_nodes = [], all_links = [], trace = w\<rparr>"

definition discovered_under ::
  "env \<Rightarrow> int \<Rightarrow> int \<Rightarrow> world \<Rightarrow> string list \<Rightarrow> string \<Rightarrow> string \<Rightarrow> bool" where
  "discovered_under E limit connector_limit w before seed x =
     (x \<in> set (fst (snd (local_pmids_of E limit connector_limit seed
                           (trace (state_after E limit connector_limit w before))))))"

section \<open>Properties\<close>

subsection \<open>The adapter call and its delay\<close>



subsection \<open>The truncation of long titles\<close>











subsection \<open>The title taken from the XML record\<close>

text \<open>
  Claim C6, evaluated where it fails. The summary gives no title. In the first record
  the ArticleTitle element is present with the text "Real title", yet the stored title
  is the journal's Title: the element found has no children, so it counts as false and
  \<open>or\<close> passes on to the Title element. In the second record there is no Title
  element, and the article is stored as untitled.
\<close>

theorem article_title_skipped:
  "art_title (fst (get_article_summary_by_pmid (xml_env pubmed_doc) ''1'' [])) = ''Nature''
   \<and> art_title (fst (get_article_summary_by_pmid (xml_env bare_doc) ''1'' []))
       = ''(Untitled article, PMID 1)''"
  by (simp add: get_article_summary_by_pmid_def summary_fields_def xml_fields_def get'_def
      add_key_def xml_env_def is_error_status_def fromstring_def xml_title_def elem_or_def
      elem_truthy_def find_desc_def pubmed_doc_def bare_doc_def strip_def lstrip_def rstrip_def
      isspace_def final_title_def)

subsection \<open>The citation expander\<close>

lemma str_int_2: "str_int 2 = ''2''"
  by code_simp

lemma str_int_3: "str_int 3 = ''3''"
  by code_simp

text \<open>
  Claim C3, evaluated where it fails. With \<open>limit = 0\<close> and two links upstream, the
  expander returns one identifier: the length is compared with the limit only after the
  first identifier has been appended.
\<close>

theorem citations_exceed_limit_zero:
  "fst (get_citations_of links_env ''1'' ''refs'' 0 []) = [''2'']"
  by (simp add: get_citations_of_def get'_def add_key_def links_env_def is_error_status_def
      citations_body_def resp_json_def bind_def json_get_def json_iter_def py_str_def
      str_int_2 str_int_3)

subsection \<open>Failures of the upstream service\<close>










subsection \<open>The responses of the handler\<close>





subsection \<open>Invariants of the graph build\<close>

lemma node_ok_new: "node_ok pmid (new_node s_index seed pmid meta)"
  by (simp add: node_ok_def new_node_def)

lemma node_ok_mark: "node_ok k n \<Longrightarrow> node_ok k (mark_shared seed n)"
  by (auto simp: node_ok_def mark_shared_def)

lemma nodes_ok_update:
  "nodes_ok nodes \<Longrightarrow> node_ok k n \<Longrightarrow> nodes_ok (AList.update k n nodes)"
  by (simp add: nodes_ok_def distinct_update update_conv')

lemma hydrate_ok:
  "nodes_ok nodes \<Longrightarrow> nodes_ok (fst (hydrate E s_index seed ps nodes w))"
proof (induction E s_index seed ps nodes w rule: hydrate.induct)
  case (1 E s_index seed nodes w)
  then show ?case by simp
next
  case (2 E s_index seed pmid rest nodes w)
  show ?case
  proof (cases "map_of nodes pmid")
    case None
    obtain meta w' where m: "get_article_summary_by_pmid E pmid w = (meta, w')"
      by (cases "get_article_summary_by_pmid E pmid w")
    have "nodes_ok (AList.update pmid (new_node s_index seed pmid meta) nodes)"
      using "2.prems" by (simp add: nodes_ok_update node_ok_new)
    then show ?thesis
      using "2.IH"(1) [OF None m [symmetric]] None m by simp
  next
    case (Some n)
    have "node_ok pmid n"
      using "2.prems" Some by (simp add: nodes_ok_def)
    then have "nodes_ok (AList.update pmid (mark_shared seed n) nodes)"
      using "2.prems" by (simp add: nodes_ok_update node_ok_mark)
    then show ?thesis
      using "2.IH"(2) [OF Some] Some by simp
  qed
qed

lemma hydrate_ok':
  "nodes_ok nodes \<Longrightarrow> hydrate E s_index seed ps nodes w = (nodes', w') \<Longrightarrow> nodes_ok nodes'"
  using hydrate_ok [of nodes E s_index seed ps w] by simp

lemma seed_step_ok:
  "nodes_ok (all_nodes st) \<Longrightarrow> nodes_ok (all_nodes (seed_step E limit cl st is))"
  by (auto simp: seed_step_def split: prod.splits intro: hydrate_ok')

lemma run_seeds_ok:
  "nodes_ok (all_nodes st) \<Longrightarrow> nodes_ok (all_nodes (run_seeds E limit cl iseeds st))"
  unfolding run_seeds_def
  by (induction iseeds arbitrary: st) (simp_all add: seed_step_ok)

lemma set_add_distinct: "distinct s \<Longrightarrow> distinct (set_add x s)"
  by (simp add: set_add_def)

lemma foldl_set_add_distinct:
  "distinct s \<Longrightarrow> distinct (foldl (\<lambda>s x. set_add (f x) s) s xs)"
  by (induction xs arbitrary: s) (simp_all add: set_add_distinct)

lemma cite_edges_distinct:
  "distinct links \<Longrightarrow> distinct (fst (cite_edges E cl ps links w))"
proof (induction E cl ps links w rule: cite_edges.induct)
  case (1 E cl links w)
  then show ?case by simp
next
  case (2 E cl a as links w)
  then show ?case
    by (auto simp: foldl_set_add_distinct split: prod.splits)
qed

lemma chain_edges_distinct: "distinct links \<Longrightarrow> distinct (chain_edges xs links)"
  by (induction xs links rule: chain_edges.induct) (simp_all add: set_add_distinct)

lemma seed_step_links_distinct:
  "distinct (all_links st) \<Longrightarrow> distinct (all_links (seed_step E limit cl st is))"
  using cite_edges_distinct chain_edges_distinct
  by (auto simp: seed_step_def split: prod.splits) (metis fst_conv)

lemma run_seeds_links_distinct:
  "distinct (all_links st) \<Longrightarrow> distinct (all_links (run_seeds E limit cl iseeds st))"
  unfolding run_seeds_def
  by (induction iseeds arbitrary: st) (simp_all add: seed_step_links_distinct)

lemma split_aux_nonempty: "split_aux sep acc s \<noteq> []"
  by (induction sep acc s rule: split_aux.induct) auto

lemma join_Cons_nonempty: "ys \<noteq> [] \<Longrightarrow> join sep (x # ys) = x @ sep @ join sep ys"
  by (cases ys) simp_all

lemma join_split_aux: "join sep (split_aux sep acc s) = rev acc @ s"
proof (induction sep acc s rule: split_aux.induct)
  case (1 sep acc)
  then show ?case by simp
next
  case (2 sep acc c cs)
  show ?case
  proof (cases "sep \<noteq> [] \<and> prefix sep (c # cs)")
    case True
    then obtain r where r: "c # cs = sep @ r"
      by (auto simp: prefix_def)
    from True obtain s0 sep' where sep: "sep = s0 # sep'"
      by (cases sep) auto
    have d: "drop (length sep - 1) cs = r"
      using r sep by simp
    have u: "split_aux sep acc (c # cs) = rev acc # split_aux sep [] r"
      using True d by simp
    have "join sep (split_aux sep [] r) = r"
      using "2.IH"(1) [OF True] d by simp
    then have "join sep (split_aux sep acc (c # cs)) = rev acc @ sep @ r"
      unfolding u by (simp add: join_Cons_nonempty split_aux_nonempty)
    then show ?thesis
      using r by simp
  next
    case False
    then show ?thesis
      using "2.IH"(2) [OF False] by auto
  qed
qed

lemma split_edge: "split edge ''->'' = [a, b] \<Longrightarrow> edge = edge_key a b"
  using join_split_aux [of "''->''" "[]" edge]
  by (simp add: split_def edge_key_def)

lemma mk_link_ends [simp]:
  "source (mk_link a b src tgt) = a" "target (mk_link a b src tgt) = b"
  by (simp_all add: mk_link_def)

lemma build_links_from:
  "l \<in> set (build_links nm keys) \<Longrightarrow>
     edge_key (source l) (target l) \<in> set keys
     \<and> map_of nm (source l) \<noteq> None \<and> map_of nm (target l) \<noteq> None"
proof (induction keys)
  case Nil
  then show ?case by simp
next
  case (Cons edge rest)
  show ?case
  proof (cases "\<exists>a b src tgt. split edge ''->'' = [a, b] \<and> map_of nm a = Some src
                  \<and> map_of nm b = Some tgt")
    case True
    then obtain a b src tgt where sp: "split edge ''->'' = [a, b]"
      and ma: "map_of nm a = Some src" and mb: "map_of nm b = Some tgt"
      by blast
    have bl: "build_links nm (edge # rest) = mk_link a b src tgt # build_links nm rest"
      using sp ma mb by simp
    have e: "edge = edge_key a b"
      using sp by (rule split_edge)
    show ?thesis
      using Cons bl e ma mb by auto
  next
    case False
    then have "build_links nm (edge # rest) = build_links nm rest"
      by (auto split: list.splits option.splits)
    then show ?thesis
      using Cons by auto
  qed
qed

lemma build_links_distinct:
  "distinct keys \<Longrightarrow> distinct (map (\<lambda>l. (source l, target l)) (build_links nm keys))"
proof (induction keys)
  case Nil
  then show ?case by simp
next
  case (Cons edge rest)
  have IH: "distinct (map (\<lambda>l. (source l, target l)) (build_links nm rest))"
    using Cons by simp
  have fresh: "edge_key (source l) (target l) \<noteq> edge" if "l \<in> set (build_links nm rest)" for l
    using Cons.prems build_links_from [OF that] by auto
  show ?case
  proof (cases "\<exists>a b src tgt. split edge ''->'' = [a, b] \<and> map_of nm a = Some src
                  \<and> map_of nm b = Some tgt")
    case True
    then obtain a b src tgt where sp: "split edge ''->'' = [a, b]"
      and ma: "map_of nm a = Some src" and mb: "map_of nm b = Some tgt"
      by blast
    have bl: "build_links nm (edge # rest) = mk_link a b src tgt # build_links nm rest"
      using sp ma mb by simp
    have e: "edge = edge_key a b"
      using sp by (rule split_edge)
    show ?thesis
      using IH fresh e bl by (auto simp: image_iff)
  next
    case False
    then have "build_links nm (edge # rest) = build_links nm rest"
      by (auto split: list.splits option.splits)
    then show ?thesis
      using IH by simp
  qed
qed

lemma node_map_keys:
  "fst ` set (foldl (\<lambda>m n. AList.update (node_id n) n m) m0 nodes)
     = fst ` set m0 \<union> node_id ` set nodes"
  by (induction nodes arbitrary: m0) (auto simp: dom_update)

lemma nodes_ok_set: "nodes_ok nodes \<Longrightarrow> (k, n) \<in> set nodes \<Longrightarrow> node_ok k n"
  by (simp add: nodes_ok_def)

lemma nodes_ok_ids: "nodes_ok nodes \<Longrightarrow> map node_id (map snd nodes) = map fst nodes"
  by (auto simp: node_ok_def dest: nodes_ok_set)

lemma nodes_ok_empty: "nodes_ok []"
  by (simp add: nodes_ok_def)

lemma buildGraph_nodes:
  "fst (fst (buildGraph E seeds limit cl w)) = map snd (all_nodes (state_after E limit cl w seeds))"
  by (simp add: buildGraph_def state_after_def Let_def)

lemma state_after_ok: "nodes_ok (all_nodes (state_after E limit cl w seeds))"
  unfolding state_after_def by (rule run_seeds_ok) (simp add: nodes_ok_empty)

lemma links_env_citations:
  "p \<noteq> [] \<Longrightarrow>
   get_citations_of links_env p ''refs'' 20 w =
     ([''2'', ''3''],
      w @ [Call ''elink'' [(''dbfrom'', PStr ''pubmed''), (''db'', PStr ''pubmed''),
                           (''id'', PStr p), (''linkname'', PStr ''pubmed_pubmed_refs''),
                           (''retmode'', PStr ''json'')], Sleep DELAY])"
  by (simp add: get_citations_of_def get'_def add_key_def links_env_def is_error_status_def
      citations_body_def resp_json_def bind_def json_get_def json_iter_def py_str_def
      str_int_2 str_int_3)

lemma links_env_summary:
  "get_article_summary_by_pmid links_env p w =
     (default_article p,
      w @ [Call ''esummary'' [(''db'', PStr ''pubmed''), (''id'', PStr p),
                              (''retmode'', PStr ''json'')], Sleep DELAY,
           Call ''efetch'' [(''db'', PStr ''pubmed''), (''id'', PStr p),
                            (''retmode'', PStr ''xml'')], Sleep DELAY])"
  by (simp add: get_article_summary_by_pmid_def summary_fields_def xml_fields_def get'_def
      add_key_def links_env_def is_error_status_def resp_json_def fromstring_def bind_def
      json_get_def str_field_def default_article_def final_title_def final_abstract_def)

lemma isdigit_1: "isdigit ''1''"
  by (simp add: isdigit_def isdigit_char_def isdecimal_def)

lemma isdigit_2: "isdigit ''2''"
  by (simp add: isdigit_def isdigit_char_def isdecimal_def)

lemma links_env_rank: "set_rank links_env = (\<lambda>xs x. 0)"
  by (simp add: links_env_def)

lemma links_env_graph:
  "map node_id (fst (fst (buildGraph links_env [''1''] 20 20 []))) = [''1'', ''2'', ''3'']
   \<and> map (\<lambda>l. (source l, target l)) (snd (fst (buildGraph links_env [''1''] 20 20 [])))
       = [(''1'', ''2''), (''1'', ''3''), (''2'', ''3'')]"
  by (simp add: buildGraph_def run_seeds_def seed_step_def local_pmids_of_def resolve_seed_def
      isdigit_1 py_set_def set_add_def links_env_citations links_env_summary list_of_set_def
      links_env_rank new_node_def default_article_def edge_key_def split_def mk_link_def
      enumerate_eq_zip)

subsection \<open>Well-formed nodes\<close>

text \<open>
  Claim C10. In the output of every graph build the node ids are pairwise distinct, and
  every node has its name equal to its full title, the value 12, a non-empty list of seed
  groups without repetition, and as seed group the first element of that list.
\<close>

theorem nodes_wellformed:
  "distinct (map node_id (fst (fst (buildGraph E seeds limit cl w))))
   \<and> (\<forall>n \<in> set (fst (fst (buildGraph E seeds limit cl w))).
         node_name n = title_full n \<and> val n = 12 \<and> seedGroups n \<noteq> []
         \<and> distinct (seedGroups n) \<and> seedGroup n = hd (seedGroups n))"
proof -
  let ?nodes = "all_nodes (state_after E limit cl w seeds)"
  have ok: "nodes_ok ?nodes"
    by (rule state_after_ok)
  have d: "distinct (map node_id (map snd ?nodes))"
    using ok by (simp only: nodes_ok_ids) (simp add: nodes_ok_def)
  have p: "node_name n = title_full n \<and> val n = 12 \<and> seedGroups n \<noteq> []
           \<and> distinct (seedGroups n) \<and> seedGroup n = hd (seedGroups n)"
    if "n \<in> set (map snd ?nodes)" for n
  proof -
    from that obtain k where "(k, n) \<in> set ?nodes"
      by auto
    then have "node_ok k n"
      using ok by (rule nodes_ok_set [rotated])
    then show ?thesis
      by (auto simp: node_ok_def)
  qed
  show ?thesis
    unfolding buildGraph_nodes using d p by blast
qed

text \<open>Witness for C10: the build from the seed 1 has the nodes 1, 2 and 3.\<close>

theorem nodes_wellformed_witness:
  "map node_id (fst (fst (buildGraph links_env [''1''] 20 20 []))) = [''1'', ''2'', ''3'']
   \<and> distinct (map node_id (fst (fst (buildGraph links_env [''1''] 20 20 []))))
   \<and> (\<exists>n \<in> set (fst (fst (buildGraph links_env [''1''] 20 20 []))).
         node_id n = ''1'' \<and> node_name n = title_full n \<and> val n = 12
         \<and> seedGroups n \<noteq> [] \<and> distinct (seedGroups n)
         \<and> seedGroup n = hd (seedGroups n))"
proof -
  have "''1'' \<in> set (map node_id (fst (fst (buildGraph links_env [''1''] 20 20 []))))"
    by (simp only: links_env_graph) simp
  then obtain n where "n \<in> set (fst (fst (buildGraph links_env [''1''] 20 20 [])))"
    and "node_id n = ''1''"
    by auto
  then show ?thesis
    using nodes_wellformed [of links_env "[''1'']" 20 20 "[]"] links_env_graph by blast
qed

subsection \<open>Edges join nodes and are not repeated\<close>

text \<open>
  Claim C1. In the output of every graph build, the source and the target of every link
  are ids of nodes of the output, and no two links have the same pair of source and
  target.
\<close>

theorem links_join_nodes_once:
  "(\<forall>l \<in> set (snd (fst (buildGraph E seeds limit cl w))).
       source l \<in> node_id ` set (fst (fst (buildGraph E seeds limit cl w)))
       \<and> target l \<in> node_id ` set (fst (fst (buildGraph E seeds limit cl w))))
   \<and> distinct (map (\<lambda>l. (source l, target l)) (snd (fst (buildGraph E seeds limit cl w))))"
proof -
  let ?st = "state_after E limit cl w seeds"
  let ?nodes = "map snd (all_nodes ?st)"
  let ?nm = "foldl (\<lambda>m n. AList.update (node_id n) n m) [] ?nodes"
  let ?keys = "list_of_set E (all_links ?st)"
  have links: "snd (fst (buildGraph E seeds limit cl w)) = build_links ?nm ?keys"
    by (simp add: buildGraph_def state_after_def Let_def)
  have keys: "fst ` set ?nm = node_id ` set ?nodes"
    using node_map_keys [of "[]" ?nodes] by simp
  have ends: "source l \<in> node_id ` set ?nodes \<and> target l \<in> node_id ` set ?nodes"
    if "l \<in> set (build_links ?nm ?keys)" for l
  proof -
    have "map_of ?nm (source l) \<noteq> None" and "map_of ?nm (target l) \<noteq> None"
      using build_links_from [OF that] by simp_all
    then have "source l \<in> fst ` set ?nm" and "target l \<in> fst ` set ?nm"
      by (simp_all add: map_of_eq_None_iff)
    then show ?thesis
      unfolding keys by simp
  qed
  have "distinct (all_links ?st)"
    unfolding state_after_def by (rule run_seeds_links_distinct) simp
  then have "distinct ?keys"
    by (simp add: list_of_set_def)
  then have "distinct (map (\<lambda>l. (source l, target l)) (build_links ?nm ?keys))"
    by (rule build_links_distinct)
  then show ?thesis
    unfolding links buildGraph_nodes using ends by blast
qed

text \<open>
  Witness for C1: the build from the seed 1 has the links from 1 to 2, from 1 to 3 and
  from 2 to 3.
\<close>

theorem links_join_nodes_once_witness:
  "map (\<lambda>l. (source l, target l)) (snd (fst (buildGraph links_env [''1''] 20 20 [])))
     = [(''1'', ''2''), (''1'', ''3''), (''2'', ''3'')]
   \<and> distinct (map (\<lambda>l. (source l, target l))
                 (snd (fst (buildGraph links_env [''1''] 20 20 []))))
   \<and> (\<exists>l \<in> set (snd (fst (buildGraph links_env [''1''] 20 20 []))).
         source l = ''1'' \<and> target l = ''2''
         \<and> source l \<in> node_id ` set (fst (fst (buildGraph links_env [''1''] 20 20 [])))
         \<and> target l \<in> node_id ` set (fst (fst (buildGraph links_env [''1''] 20 20 []))))"
proof -
  have "(''1'', ''2'') \<in> set (map (\<lambda>l. (source l, target l))
                                (snd (fst (buildGraph links_env [''1''] 20 20 []))))"
    by (simp only: links_env_graph) simp
  then obtain l where "l \<in> set (snd (fst (buildGraph links_env [''1''] 20 20 [])))"
    and "source l = ''1''" and "target l = ''2''"
    by auto
  then show ?thesis
    using links_join_nodes_once [of links_env "[''1'']" 20 20 "[]"] links_env_graph by blast
qed

end
